theory Spec2Isabelle
  imports Complex_Main "HOL-Library.Log_Nat"
begin

section \<open>Python floats\<close>

text \<open>
  A Python \<open>float\<close> is an IEEE 754 double: a finite value, an infinity or NaN. The
  finite values are kept as rationals; \<open>round_double\<close> is the rounding that every
  arithmetic operation ends with (to the nearest double, ties to the even significand).
  For \<open>2 ^ e \<le> \<bar>q\<bar> < 2 ^ (e + 1)\<close> the doubles around \<open>q\<close> are the multiples of
  \<open>2 ^ (e - 52)\<close>, and of \<open>2 ^ (- 1074)\<close> in the subnormal range \<open>e < - 1022\<close>; a result
  of magnitude \<open>2 ^ 1024\<close> or more is an infinity. The sign of a zero is not kept: the
  functions below never tell \<open>0.0\<close> from \<open>-0.0\<close>.
  A float argument is \<open>Finite q\<close> with \<open>is_double q\<close>; what is proved for every
  rational \<open>q\<close> holds for these.
\<close>

datatype pyfloat = Finite rat | PosInf | NegInf | NaN

definition pow2 :: "int \<Rightarrow> rat" where
  "pow2 e = (if 0 \<le> e then 2 ^ nat e else 1 / 2 ^ nat (- e))"

text \<open>
  \<open>floor_log2 q\<close> is the exponent \<open>e\<close> with \<open>2 ^ e \<le> q < 2 ^ (e + 1)\<close>, for
  \<open>0 < q\<close>; it is found from the bit lengths of numerator and denominator.
\<close>

definition floor_log2 :: "rat \<Rightarrow> int" where
  "floor_log2 q =
    (case quotient_of q of (a, b) \<Rightarrow>
       let d = bitlen a - bitlen b in if pow2 d \<le> q then d else d - 1)"

definition round_half_even :: "rat \<Rightarrow> int" where
  "round_half_even x =
    (let f = \<lfloor>x\<rfloor>; r = x - of_int f
     in if r < 1 / 2 then f else if 1 / 2 < r then f + 1 else if even f then f else f + 1)"

definition round_double :: "rat \<Rightarrow> pyfloat" where
  "round_double q =
    (if q = 0 then Finite 0
     else
       let e = floor_log2 \<bar>q\<bar>;
           ulp = pow2 (max e (- 1022) - 52);
           n = round_half_even (q / ulp)
       in if 1024 \<le> e \<or> (e = 1023 \<and> \<bar>n\<bar> = 2 ^ 53)
          then (if 0 < q then PosInf else NegInf)
          else Finite (of_int n * ulp))"

text \<open>A rational that is a double.\<close>

definition is_double :: "rat \<Rightarrow> bool" where
  "is_double q = (round_double q = Finite q)"


fun fneg :: "pyfloat \<Rightarrow> pyfloat" where
  "fneg (Finite x) = Finite (- x)"
| "fneg PosInf = NegInf"
| "fneg NegInf = PosInf"
| "fneg NaN = NaN"

fun fsub :: "pyfloat \<Rightarrow> pyfloat \<Rightarrow> pyfloat" where
  "fsub (Finite x) (Finite y) = round_double (x - y)"
| "fsub NaN b = NaN"
| "fsub a NaN = NaN"
| "fsub PosInf PosInf = NaN"
| "fsub NegInf NegInf = NaN"
| "fsub PosInf b = PosInf"
| "fsub NegInf b = NegInf"
| "fsub (Finite x) b = fneg b"

fun is_negative :: "pyfloat \<Rightarrow> bool" where
  "is_negative (Finite x) = (x < 0)"
| "is_negative NegInf = True"
| "is_negative b = False"

definition signed_inf :: "bool \<Rightarrow> pyfloat" where
  "signed_inf negative = (if negative then NegInf else PosInf)"


section \<open>Values and exceptions of the embedded Python\<close>

text \<open>
  The module \<open>rasterstats/utils.py\<close> is dynamically typed: \<open>parse_geo\<close> and
  \<open>get_features\<close> probe an arbitrary object. The objects they can tell apart are the
  constructors of \<open>pyval\<close>. A \<open>dict\<close> is an association list with string keys (looked
  up with \<open>map_of\<close>); \<open>PGeoObj g\<close> is an object whose attribute
  \<open>__geo_interface__\<close> is \<open>g\<close> and which is neither a string, bytes, a dict nor
  iterable.
\<close>

datatype pyval =
    PNone
  | PBool bool
  | PInt int
  | PFloat pyfloat
  | PStr string
  | PBytes string
  | PList "pyval list"
  | PTuple "pyval list"
  | PDict "(string \<times> pyval) list"
  | PGeoObj pyval

text \<open>
  Every exception the module raises itself or catches by name. The two exception classes
  of the module carry the value that is formatted into their message.
\<close>

datatype exn =
    RasterStatsError_offset
  | RasterStatsError_parse pyval
  | OGRError_not_string pyval
  | OGRError_open pyval
  | OGRError_no_features
  | TypeError
  | AttributeError
  | KeyError
  | ValueError
  | AssertionError
  | ReadingError
  | ZeroDivisionError
  | OverflowError

fun is_OGRError :: "exn \<Rightarrow> bool" where
  "is_OGRError (OGRError_not_string _) = True"
| "is_OGRError (OGRError_open _) = True"
| "is_OGRError OGRError_no_features = True"
| "is_OGRError _ = False"

section \<open>Float operations that raise\<close>

text \<open>
  \<open>a / b\<close> on floats: a zero divisor raises before anything else is looked at.
\<close>

fun fdiv :: "pyfloat \<Rightarrow> pyfloat \<Rightarrow> exn + pyfloat" where
  "fdiv (Finite x) (Finite y) =
     (if y = 0 then Inl ZeroDivisionError else Inr (round_double (x / y)))"
| "fdiv a (Finite y) =
     (if y = 0 then Inl ZeroDivisionError
      else case a of NaN \<Rightarrow> Inr NaN | a \<Rightarrow> Inr (signed_inf (is_negative a \<noteq> (y < 0))))"
| "fdiv NaN b = Inr NaN"
| "fdiv a NaN = Inr NaN"
| "fdiv (Finite x) b = Inr (Finite 0)"
| "fdiv a b = Inr NaN"


text \<open>\<open>int(math.floor(x))\<close> and \<open>int(math.ceil(x))\<close>\<close>

fun math_floor :: "pyfloat \<Rightarrow> exn + int" where
  "math_floor (Finite x) = Inr \<lfloor>x\<rfloor>"
| "math_floor NaN = Inl ValueError"
| "math_floor x = Inl OverflowError"

fun math_ceil :: "pyfloat \<Rightarrow> exn + int" where
  "math_ceil (Finite x) = Inr \<lceil>x\<rceil>"
| "math_ceil NaN = Inl ValueError"
| "math_ceil x = Inl OverflowError"

text \<open>Evaluation goes on with the value, or stops with the exception raised.\<close>

definition and_then :: "exn + 'a \<Rightarrow> ('a \<Rightarrow> exn + 'b) \<Rightarrow> exn + 'b" where
  "and_then r f = (case r of Inl e \<Rightarrow> Inl e | Inr v \<Rightarrow> f v)"

section \<open>AffineWindow: \<open>bbox_to_pixel_offsets\<close> and its companions\<close>

text \<open>
  \<open>gt\<close> is the 6-tuple of the affine transform, \<open>bbox\<close> is
  \<open>(minX, minY, maxX, maxY)\<close>, both of floats; \<open>rsize\<close> is \<open>(width, height)\<close> in
  pixels, of integers. The four pixel coordinates are computed in the order of the
  source, so the first one that fails decides the exception: \<open>ZeroDivisionError\<close> on a
  zero pixel size, \<open>ValueError\<close> on a NaN quotient, \<open>OverflowError\<close> on an infinite one.
\<close>

type_synonym geotransform = "pyfloat \<times> pyfloat \<times> pyfloat \<times> pyfloat \<times> pyfloat \<times> pyfloat"
type_synonym bounds = "pyfloat \<times> pyfloat \<times> pyfloat \<times> pyfloat"
type_synonym offsets = "int \<times> int \<times> int \<times> int"

definition bbox_to_pixel_offsets ::
  "geotransform \<Rightarrow> bounds \<Rightarrow> int \<times> int \<Rightarrow> exn + offsets" where
  "bbox_to_pixel_offsets gt bbox rsize =
    (case gt of (originX, pixel_width, gt2, originY, gt4, pixel_height) \<Rightarrow>
     case bbox of (bbox0, bbox1, bbox2, bbox3) \<Rightarrow>
     case rsize of (rsize0, rsize1) \<Rightarrow>
       and_then (and_then (fdiv (fsub bbox0 originX) pixel_width) math_floor) (\<lambda>x1.
       and_then (and_then (fdiv (fsub bbox2 originX) pixel_width) math_ceil) (\<lambda>x2.
       and_then (and_then (fdiv (fsub bbox3 originY) pixel_height) math_floor) (\<lambda>y1.
       and_then (and_then (fdiv (fsub bbox1 originY) pixel_height) math_ceil) (\<lambda>y2.
         let x1 = (if x1 < 0 then 0 else x1);
             x2 = (if x2 > rsize0 then rsize0 else x2);
             y1 = (if y1 < 0 then 0 else y1);
             y2 = (if y2 > rsize1 then rsize1 else y2);
             xsize = x2 - x1;
             ysize = y2 - y1
         in Inr (x1, y1, xsize, ysize))))))"

text \<open>
  \<open>pixel_offsets_to_window\<close> takes any sequence and checks its length, so its
  argument is a list; \<open>offsets_list\<close> is the tuple returned by
  \<open>bbox_to_pixel_offsets\<close> read as that sequence.
\<close>

fun offsets_list :: "offsets \<Rightarrow> int list" where
  "offsets_list (x1, y1, xsize, ysize) = [x1, y1, xsize, ysize]"

fun pixel_offsets_to_window :: "int list \<Rightarrow> exn + ((int \<times> int) \<times> (int \<times> int))" where
  "pixel_offsets_to_window [x1, y1, xsize, ysize] = Inr ((y1, y1 + ysize), (x1, x1 + xsize))"
| "pixel_offsets_to_window _ = Inl RasterStatsError_offset"


section \<open>FormatAdapters: \<open>shapely_to_ogr_type\<close> and \<open>feature_to_geojson\<close>\<close>

text \<open>
  The geometry-type enumeration of the OGR driver. The source names three of its
  members; the others are listed to show which are never returned.
\<close>

datatype OGRwkbGeometryType =
    wkbPoint
  | wkbLineString
  | wkbPolygon
  | wkbMultiPoint
  | wkbMultiLineString
  | wkbMultiPolygon

definition shapely_to_ogr_type :: "string \<Rightarrow> exn + OGRwkbGeometryType" where
  "shapely_to_ogr_type shapely_type =
    (if shapely_type = ''Polygon'' then Inr wkbPolygon
     else if shapely_type = ''LineString'' then Inr wkbLineString
     else if shapely_type = ''MultiPolygon'' then Inr wkbMultiPolygon
     else if shapely_type = ''MultiLineString'' then Inr wkbLineString
     else Inl TypeError)"

text \<open>
  An OGR feature, as far as \<open>feature_to_geojson\<close> reads it: \<open>GetGeometryRef\<close> is
  \<open>None\<close> for a feature without geometry and otherwise holds the object that
  \<open>json.loads(geom.ExportToJson())\<close> gives; \<open>field_items\<close> pairs every key of
  \<open>feature.keys()\<close> with \<open>feature.GetField(key)\<close>.
\<close>

record feature =
  GetGeometryRef :: "pyval option"
  GetFID :: int
  field_items :: "(string \<times> pyval) list"

definition feature_to_geojson :: "feature \<Rightarrow> pyval" where
  "feature_to_geojson f =
    (let geom_json_object = (case GetGeometryRef f of Some g \<Rightarrow> g | None \<Rightarrow> PNone);
         output = [(''type'', PStr ''Feature''),
                   (''geometry'', geom_json_object),
                   (''properties'', PDict (field_items f))];
         fid = GetFID f
     in PDict (if fid \<noteq> 0 then output @ [(''id'', PInt fid)] else output))"

section \<open>GeometryNormalizer: \<open>parse_geo\<close> and \<open>get_features\<close>\<close>

subsection \<open>The libraries behind the module\<close>

text \<open>
  \<open>osgeo.ogr\<close>, \<open>shapely\<close> and \<open>json\<close> are not part of the module; they are the fields
  of \<open>env\<close>. \<open>ogr_Open\<close> is \<open>None\<close> where \<open>ogr.Open\<close> returns a false value; the
  answers do not change between two calls. \<open>wkb_loads\<close> and \<open>wkt_loads\<close> stand for
  \<open>wkb.loads(thing).__geo_interface__\<close> and \<open>wkt.loads(thing).__geo_interface__\<close>:
  the mapping of the decoded shape, or the exception raised.
\<close>

datatype spatial_ref = SpatialReference string

record layer =
  GetFeatureCount :: int
  features :: "feature list"
  GetSpatialRef :: "spatial_ref option"

record dataset =
  GetLayer :: "int \<Rightarrow> layer option"

record env =
  ogr_Open :: "string \<Rightarrow> dataset option"
  wkb_loads :: "pyval \<Rightarrow> exn + pyval"
  wkt_loads :: "pyval \<Rightarrow> exn + pyval"
  json_loads :: "pyval \<Rightarrow> exn + pyval"

subsection \<open>Python primitives\<close>

text \<open>
  \<open>try_except body caught handler\<close> is \<open>try: body  except caught: handler\<close>: an
  exception that the clause does not name propagates.
\<close>

definition try_except :: "exn + 'a \<Rightarrow> (exn \<Rightarrow> bool) \<Rightarrow> exn + 'a \<Rightarrow> exn + 'a" where
  "try_except body caught handler =
    (case body of
       Inr v \<Rightarrow> Inr v
     | Inl e \<Rightarrow> if caught e then handler else Inl e)"

text \<open>\<open>thing.__geo_interface__\<close>\<close>

fun getattr_geo_interface :: "pyval \<Rightarrow> exn + pyval" where
  "getattr_geo_interface (PGeoObj geo) = Inr geo"
| "getattr_geo_interface _ = Inl AttributeError"

text \<open>\<open>thing[key]\<close> for a string key: only a dict can be subscripted by a string.\<close>

fun py_getitem :: "pyval \<Rightarrow> string \<Rightarrow> exn + pyval" where
  "py_getitem (PDict kvs) key = (case map_of kvs key of Some v \<Rightarrow> Inr v | None \<Rightarrow> Inl KeyError)"
| "py_getitem _ key = Inl TypeError"

text \<open>
  \<open>fmt % thing\<close> with one \<open>%s\<close> or \<open>%r\<close> in \<open>fmt\<close>: a tuple on the right is
  unpacked as the argument list, so it must have exactly one element; \<open>format_arg\<close>
  returns the value that ends up in the message.
\<close>

fun format_arg :: "pyval \<Rightarrow> exn + pyval" where
  "format_arg (PTuple [x]) = Inr x"
| "format_arg (PTuple _) = Inl TypeError"
| "format_arg v = Inr v"

text \<open>The items of \<open>for vector in vectors\<close> (Python 3: bytes iterate as integers).\<close>

fun py_iter :: "pyval \<Rightarrow> exn + pyval list" where
  "py_iter (PList xs) = Inr xs"
| "py_iter (PTuple xs) = Inr xs"
| "py_iter (PDict kvs) = Inr (map (\<lambda>kv. PStr (fst kv)) kvs)"
| "py_iter (PStr s) = Inr (map (\<lambda>c. PStr [c]) s)"
| "py_iter (PBytes b) = Inr (map (\<lambda>c. PInt (of_char c)) b)"
| "py_iter _ = Inl TypeError"

definition lower_char :: "char \<Rightarrow> char" where
  "lower_char c =
    (let n = (of_char c :: nat) in if 65 \<le> n \<and> n \<le> 90 then char_of (n + 32) else c)"

text \<open>\<open>geotype.lower()\<close>\<close>

fun py_lower :: "pyval \<Rightarrow> exn + pyval" where
  "py_lower (PStr s) = Inr (PStr (map lower_char s))"
| "py_lower (PBytes b) = Inr (PBytes (map lower_char b))"
| "py_lower _ = Inl AttributeError"

subsection \<open>Generators\<close>

text \<open>
  What a consumer sees of an iterator: the items in order, ended by exhaustion
  (\<open>Stop\<close>) or by an exception (\<open>Raise\<close>). Nothing follows a \<open>Raise\<close>: a generator
  that raised is finished. The body of a generator function runs when the iterator is
  advanced, so calling it never fails.
\<close>

datatype 'a gen = Stop | Yield 'a "'a gen" | Raise exn

fun list_gen :: "'a list \<Rightarrow> 'a gen" where
  "list_gen [] = Stop"
| "list_gen (x # xs) = Yield x (list_gen xs)"

fun yielded :: "'a gen \<Rightarrow> 'a list" where
  "yielded Stop = []"
| "yielded (Yield x g) = x # yielded g"
| "yielded (Raise e) = []"

fun raised :: "'a gen \<Rightarrow> exn option" where
  "raised Stop = None"
| "raised (Yield x g) = raised g"
| "raised (Raise e) = Some e"

subsection \<open>\<open>parse_geo\<close>\<close>

definition valid_types :: "string list" where
  "valid_types = [''Feature'', ''Point'', ''LineString'', ''Polygon'',
                  ''MultiPoint'', ''MultiLineString'', ''MultiPolygon'']"

definition parse_geo :: "env \<Rightarrow> pyval \<Rightarrow> exn + pyval" where
  "parse_geo E thing =
    try_except (getattr_geo_interface thing)
      (\<lambda>e. e = AttributeError)
   (try_except (wkb_loads E thing)
      (\<lambda>e. e \<in> {ReadingError, TypeError})
   (try_except (wkt_loads E thing)
      (\<lambda>e. e \<in> {ReadingError, TypeError, AttributeError})
   (try_except
      (case py_getitem thing ''type'' of
         Inl e \<Rightarrow> Inl e
       | Inr t \<Rightarrow> if t \<in> set (map PStr valid_types) then Inr thing else Inl AssertionError)
      (\<lambda>e. e \<in> {AssertionError, TypeError})
   (try_except
      (case json_loads E thing of
         Inl e \<Rightarrow> Inl e
       | Inr maybe_geo \<Rightarrow>
          (case py_getitem maybe_geo ''type'' of
             Inl e \<Rightarrow> Inl e
           | Inr t \<Rightarrow>
               if t \<in> set (map PStr (valid_types @ [''FeatureCollection'']))
               then Inr maybe_geo else Inl AssertionError))
      (\<lambda>e. e \<in> {ValueError, AssertionError, TypeError})
   (case format_arg thing of
      Inl e \<Rightarrow> Inl e
    | Inr a \<Rightarrow> Inl (RasterStatsError_parse a))))))"

subsection \<open>The OGR layer\<close>

definition get_ogr_ds :: "env \<Rightarrow> pyval \<Rightarrow> exn + dataset" where
  "get_ogr_ds E vds =
    (case vds of
       PStr s \<Rightarrow>
         (case ogr_Open E s of
            None \<Rightarrow> Inl (OGRError_open vds)
          | Some ds \<Rightarrow> Inr ds)
     | _ \<Rightarrow>
         (case format_arg vds of
            Inl e \<Rightarrow> Inl e
          | Inr a \<Rightarrow> Inl (OGRError_not_string a)))"

definition ogr_srs :: "env \<Rightarrow> pyval \<Rightarrow> int \<Rightarrow> exn + spatial_ref option" where
  "ogr_srs E vector layer_num =
    (case get_ogr_ds E vector of
       Inl e \<Rightarrow> Inl e
     | Inr ds \<Rightarrow>
         (case GetLayer ds layer_num of
            None \<Rightarrow> Inl AttributeError
          | Some layer \<Rightarrow> Inr (GetSpatialRef layer)))"

text \<open>The \<open>while feature is not None\<close> loop over what \<open>GetNextFeature\<close> returns.\<close>

fun ogr_records_loop :: "feature list \<Rightarrow> pyval gen" where
  "ogr_records_loop [] = Stop"
| "ogr_records_loop (f # fs) = Yield (feature_to_geojson f) (ogr_records_loop fs)"

definition ogr_records :: "env \<Rightarrow> pyval \<Rightarrow> int \<Rightarrow> pyval gen" where
  "ogr_records E vector layer_num =
    (case get_ogr_ds E vector of
       Inl e \<Rightarrow> Raise e
     | Inr ds \<Rightarrow>
         (case GetLayer ds layer_num of
            None \<Rightarrow> Raise AttributeError
          | Some layer \<Rightarrow>
              if GetFeatureCount layer = 0 then Raise OGRError_no_features
              else ogr_records_loop (features layer)))"

subsection \<open>\<open>geo_records\<close> and \<open>get_features\<close>\<close>

fun geo_records_loop :: "env \<Rightarrow> pyval list \<Rightarrow> pyval gen" where
  "geo_records_loop E [] = Stop"
| "geo_records_loop E (vector # rest) =
    (case parse_geo E vector of
       Inl e \<Rightarrow> Raise e
     | Inr geo \<Rightarrow> Yield geo (geo_records_loop E rest))"

definition geo_records :: "env \<Rightarrow> pyval \<Rightarrow> pyval gen" where
  "geo_records E vectors =
    (case py_iter vectors of
       Inl e \<Rightarrow> Raise e
     | Inr items \<Rightarrow> geo_records_loop E items)"

type_synonym features_result = "pyval gen \<times> string \<times> spatial_ref option"

text \<open>
  The three places where the source says
  \<open>feat = parse_geo(vectors); features_iter = [feat]; strategy = "single_geo"\<close>.
\<close>

definition single_geo :: "env \<Rightarrow> pyval \<Rightarrow> spatial_ref option \<Rightarrow> exn + features_result" where
  "single_geo E vectors spatial_ref =
    (case parse_geo E vectors of
       Inl e \<Rightarrow> Inl e
     | Inr feat \<Rightarrow> Inr (list_gen [feat], ''single_geo'', spatial_ref))"

definition get_features :: "env \<Rightarrow> pyval \<Rightarrow> int \<Rightarrow> exn + features_result" where
  "get_features E vectors layer_num =
    (let spatial_ref = Some (SpatialReference '''') in
     case vectors of
       PStr s \<Rightarrow>
         try_except
           (case get_ogr_ds E vectors of
              Inl e \<Rightarrow> Inl e
            | Inr ds \<Rightarrow>
                (let features_iter = ogr_records E vectors layer_num in
                 case ogr_srs E vectors layer_num of
                   Inl e \<Rightarrow> Inl e
                 | Inr layer_ref \<Rightarrow> Inr (features_iter, ''ogr'', layer_ref)))
           (\<lambda>e. is_OGRError e \<or> e = AttributeError)
           (single_geo E vectors spatial_ref)
     | PBytes b \<Rightarrow> single_geo E vectors spatial_ref
     | PGeoObj geo \<Rightarrow>
         (case py_getitem geo ''type'' of
            Inl e \<Rightarrow> Inl e
          | Inr geotype \<Rightarrow>
              (case py_lower geotype of
                 Inl e \<Rightarrow> Inl e
               | Inr lowered \<Rightarrow>
                   if lowered = PStr ''featurecollection'' then
                     (case py_getitem geo ''features'' of
                        Inl e \<Rightarrow> Inl e
                      | Inr members \<Rightarrow>
                          Inr (geo_records E members, ''geo_featurecollection'', spatial_ref))
                   else single_geo E vectors spatial_ref))
     | PDict kvs \<Rightarrow> single_geo E vectors spatial_ref
     | _ \<Rightarrow> Inr (geo_records E vectors, ''iter_geo'', spatial_ref))"

section \<open>RasterMaskBuilder: \<open>rasterize_geom\<close>\<close>

text \<open>
  \<open>rasterize_geom\<close> forwards to \<open>rasterio.features.rasterize\<close>, which is not part
  of the module: \<open>rasterize\<close> is that function, taking the list of (geometry, value)
  pairs, \<open>out_shape\<close>, \<open>transform\<close>, \<open>fill\<close> and \<open>all_touched\<close>, and returning
  the rows of the mask. \<open>src_offset\<close> is a window \<open>(x, y, xsize, ysize)\<close>.
\<close>

type_synonym mask = "int list list"

type_synonym rasterize_backend =
  "(pyval \<times> int) list \<Rightarrow> int \<times> int \<Rightarrow> geotransform \<Rightarrow> int \<Rightarrow> bool \<Rightarrow> mask"

definition rasterize_geom ::
  "rasterize_backend \<Rightarrow> pyval \<Rightarrow> offsets \<Rightarrow> geotransform \<Rightarrow> bool \<Rightarrow> mask" where
  "rasterize_geom rasterize geom src_offset new_gt all_touched =
    (case src_offset of (src_offset0, src_offset1, src_offset2, src_offset3) \<Rightarrow>
       let geoms = [(geom, 1)];
           rv_array = rasterize geoms (src_offset3, src_offset2) new_gt 0 all_touched
       in rv_array)"

section \<open>Concrete settings\<close>

text \<open>
  \<open>no_dataset_env\<close>: no path opens, the two shapely loaders raise \<open>TypeError\<close> on
  everything and \<open>json.loads\<close> raises \<open>TypeError\<close> on everything.
  \<open>empty_layer_env\<close>: the same, except that the path \<open>empty.shp\<close> opens as a dataset
  whose layer 0 reports no feature.
\<close>

definition no_dataset_env :: env where
  "no_dataset_env =
    \<lparr>ogr_Open = (\<lambda>path. None),
     wkb_loads = (\<lambda>thing. Inl TypeError),
     wkt_loads = (\<lambda>thing. Inl TypeError),
     json_loads = (\<lambda>thing. Inl TypeError)\<rparr>"

definition empty_layer :: layer where
  "empty_layer = \<lparr>GetFeatureCount = 0, features = [], GetSpatialRef = None\<rparr>"

definition empty_layer_env :: env where
  "empty_layer_env =
    no_dataset_env\<lparr>ogr_Open :=
      (\<lambda>path. if path = ''empty.shp''
               then Some \<lparr>GetLayer = (\<lambda>n. if n = 0 then Some empty_layer else None)\<rparr>
               else None)\<rparr>"

text \<open>
  \<open>json_env\<close>: as \<open>no_dataset_env\<close>, except that \<open>json.loads\<close> decodes one document,
  an empty feature collection, and raises \<open>ValueError\<close> on every other string.
\<close>

definition fc_document :: string where
  "fc_document = ''{'' @ [CHR 0x22] @ ''type'' @ [CHR 0x22] @ '': ''
     @ [CHR 0x22] @ ''FeatureCollection'' @ [CHR 0x22] @ '', ''
     @ [CHR 0x22] @ ''features'' @ [CHR 0x22] @ '': []}''"

definition fc_mapping :: "(string \<times> pyval) list" where
  "fc_mapping = [(''type'', PStr ''FeatureCollection''), (''features'', PList [])]"

definition json_env :: env where
  "json_env =
    no_dataset_env\<lparr>json_loads :=
      (\<lambda>thing. case thing of
                 PStr s \<Rightarrow> if s = fc_document then Inr (PDict fc_mapping) else Inl ValueError
               | _ \<Rightarrow> Inl TypeError)\<rparr>"

section \<open>Rounding to a double\<close>

text \<open>
  \<open>floor_log2\<close> finds the binade of a positive rational, and \<open>round_half_even\<close>
  an integer at most one half away. So a finite \<open>round_double q\<close> is a multiple of
  the spacing of the doubles around \<open>q\<close>, at most half that spacing away from \<open>q\<close>.
\<close>

lemma pow2_power_int: "pow2 e = 2 powi e"
  by (simp add: pow2_def power_int_def field_simps)

lemma pow2_pos: "0 < pow2 e"
  by (simp add: pow2_def)

lemma floor_log2_bounds:
  assumes "0 < q"
  shows "pow2 (floor_log2 q) \<le> q \<and> q < pow2 (floor_log2 q + 1)"
proof -
  obtain a b where qo: "quotient_of q = (a, b)" by (cases "quotient_of q")
  then have b: "0 < b" and q: "q = of_int a / of_int b"
    using quotient_of_denom_pos quotient_of_div by blast+
  with assms have a: "0 < a" by (simp add: zero_less_divide_iff)
  define la lb where "la = bitlen a" and "lb = bitlen b"
  have la1: "1 \<le> la" and lb1: "1 \<le> lb"
    using a b by (simp_all add: la_def lb_def bitlen_alt_def)
  have ba: "(2::int) ^ nat (la - 1) \<le> a" "a < 2 ^ nat la"
    and bb: "(2::int) ^ nat (lb - 1) \<le> b" "b < 2 ^ nat lb"
    using bitlen_bounds [OF a] bitlen_bounds [OF b] by (simp_all add: la_def lb_def)
  have int_pow: "(2::rat) powi k = of_int (2 ^ nat k)" if "0 \<le> k" for k
    using that by (simp add: power_int_def)
  have ra: "(2::rat) powi (la - 1) \<le> of_int a" "of_int a < (2::rat) powi la"
    using ba la1 by (simp_all only: int_pow of_int_le_iff of_int_less_iff)
  have rb: "(2::rat) powi (lb - 1) \<le> of_int b" "of_int b < (2::rat) powi lb"
    using bb lb1 by (simp_all only: int_pow of_int_le_iff of_int_less_iff)
  have "q < 2 powi la / 2 powi (lb - 1)"
    unfolding q using a ra(2) rb(1) by (intro frac_less) simp_all
  also have "\<dots> = 2 powi (la - lb + 1)"
    using power_int_diff [of "2::rat" la "lb - 1"] by (simp add: algebra_simps)
  finally have up: "q < 2 powi (la - lb + 1)" .
  have "2 powi (la - 1) / 2 powi lb \<le> q"
    unfolding q using a b ra(1) rb(2) by (intro frac_le) simp_all
  moreover have "2 powi (la - 1) / 2 powi lb = (2::rat) powi (la - lb - 1)"
    using power_int_diff [of "2::rat" "la - 1" lb] by (simp add: algebra_simps)
  ultimately have lo: "2 powi (la - lb - 1) \<le> q" by simp
  show ?thesis
    using up lo qo
    by (auto simp: floor_log2_def Let_def pow2_power_int la_def lb_def not_le)
qed

lemma round_half_even_nearest: "\<bar>of_int (round_half_even x) - x\<bar> \<le> 1 / 2"
proof -
  have "of_int \<lfloor>x\<rfloor> \<le> x" "x < of_int \<lfloor>x\<rfloor> + 1" by linarith+
  then show ?thesis
    by (auto simp: round_half_even_def Let_def abs_le_iff)
qed

lemma round_double_cases:
  assumes "q \<noteq> 0"
  shows "round_double q = PosInf \<or> round_double q = NegInf
     \<or> round_double q =
          Finite (of_int (round_half_even (q / pow2 (max (floor_log2 \<bar>q\<bar>) (- 1022) - 52)))
                  * pow2 (max (floor_log2 \<bar>q\<bar>) (- 1022) - 52))"
  unfolding round_double_def Let_def using assms by presburger

lemma round_double_nearest:
  assumes "round_double q = Finite r" and "q \<noteq> 0"
  shows "\<exists>n. r = of_int n * pow2 (max (floor_log2 \<bar>q\<bar>) (- 1022) - 52)
           \<and> \<bar>r - q\<bar> \<le> pow2 (max (floor_log2 \<bar>q\<bar>) (- 1022) - 52) / 2"
proof -
  define ulp where "ulp = pow2 (max (floor_log2 \<bar>q\<bar>) (- 1022) - 52)"
  define n where "n = round_half_even (q / ulp)"
  have ulp: "0 < ulp" by (simp add: ulp_def pow2_pos)
  from round_double_cases [OF assms(2)] assms(1) have r: "r = of_int n * ulp"
    by (simp add: ulp_def n_def)
  have "\<bar>of_int n - q / ulp\<bar> \<le> 1 / 2"
    unfolding n_def by (rule round_half_even_nearest)
  then have "\<bar>of_int n - q / ulp\<bar> * ulp \<le> 1 / 2 * ulp"
    using ulp by (intro mult_right_mono) simp_all
  moreover have "\<bar>of_int n - q / ulp\<bar> * ulp = \<bar>(of_int n - q / ulp) * ulp\<bar>"
    using ulp by (simp add: abs_mult)
  moreover have "(of_int n - q / ulp) * ulp = r - q"
    using ulp by (simp add: r left_diff_distrib)
  ultimately have "\<bar>r - q\<bar> \<le> ulp / 2" by simp
  with r show ?thesis unfolding ulp_def by blast
qed

text \<open>
  \<open>round_double\<close> at some known values: the double nearest to one tenth, two ties
  that go to the even significand, the spacing of 16 between doubles near \<open>10 ^ 17\<close>,
  and integers that are doubles.
\<close>

lemma round_double_tenth:
  "round_double (1 / 10) = Finite (3602879701896397 / 36028797018963968)"
  by code_simp

lemma round_double_ties_to_even:
  "round_double (2 ^ 53 + 1) = Finite (2 ^ 53) \<and> round_double (2 ^ 53 + 3) = Finite (2 ^ 53 + 4)"
  by code_simp

lemma round_double_near_1e17:
  "round_double (10 ^ 17 + 5) = Finite (10 ^ 17)
   \<and> round_double (10 ^ 17 + 10) = Finite (10 ^ 17 + 16)"
  by code_simp

lemma is_double_examples:
  "is_double 0 \<and> is_double 1 \<and> is_double (- 1) \<and> is_double 10 \<and> is_double (1 / 2)
   \<and> is_double (10 ^ 17) \<and> \<not> is_double (1 / 10) \<and> \<not> is_double (10 ^ 17 + 5)"
  by code_simp

section \<open>The pixel window\<close>



text \<open>
  When the four quotients are finite floats, the window is the clamped floor and ceiling
  of them.
\<close>

lemma bbox_to_pixel_offsets_finite:
  assumes "fdiv (fsub bbox0 originX) pixel_width = Inr (Finite px1)"
    and "fdiv (fsub bbox2 originX) pixel_width = Inr (Finite px2)"
    and "fdiv (fsub bbox3 originY) pixel_height = Inr (Finite py1)"
    and "fdiv (fsub bbox1 originY) pixel_height = Inr (Finite py2)"
  shows "bbox_to_pixel_offsets (originX, pixel_width, gt2, originY, gt4, pixel_height)
           (bbox0, bbox1, bbox2, bbox3) (rsize0, rsize1)
         = Inr (if \<lfloor>px1\<rfloor> < 0 then 0 else \<lfloor>px1\<rfloor>,
                if \<lfloor>py1\<rfloor> < 0 then 0 else \<lfloor>py1\<rfloor>,
                (if \<lceil>px2\<rceil> > rsize0 then rsize0 else \<lceil>px2\<rceil>)
                  - (if \<lfloor>px1\<rfloor> < 0 then 0 else \<lfloor>px1\<rfloor>),
                (if \<lceil>py2\<rceil> > rsize1 then rsize1 else \<lceil>py2\<rceil>)
                  - (if \<lfloor>py1\<rfloor> < 0 then 0 else \<lfloor>py1\<rfloor>))"
  using assms by (simp add: bbox_to_pixel_offsets_def and_then_def Let_def)

text \<open>
  Conversely, a window is returned only when the four quotients are finite floats.
\<close>

lemma math_floor_Inr: "math_floor v = Inr n \<Longrightarrow> \<exists>q. v = Finite q"
  by (cases v) simp_all

lemma math_ceil_Inr: "math_ceil v = Inr n \<Longrightarrow> \<exists>q. v = Finite q"
  by (cases v) simp_all

lemma bbox_to_pixel_offsets_returns_only_finite:
  assumes "bbox_to_pixel_offsets (originX, pixel_width, gt2, originY, gt4, pixel_height)
             (bbox0, bbox1, bbox2, bbox3) (rsize0, rsize1) = Inr window"
  shows "\<exists>px1 px2 py1 py2.
      fdiv (fsub bbox0 originX) pixel_width = Inr (Finite px1)
    \<and> fdiv (fsub bbox2 originX) pixel_width = Inr (Finite px2)
    \<and> fdiv (fsub bbox3 originY) pixel_height = Inr (Finite py1)
    \<and> fdiv (fsub bbox1 originY) pixel_height = Inr (Finite py2)"
  using assms
  by (auto simp: bbox_to_pixel_offsets_def and_then_def
      split: sum.splits dest!: math_floor_Inr math_ceil_Inr)

text \<open>
  Otherwise no window is computed: a zero pixel size, a NaN coordinate and an infinite
  coordinate end in the three exceptions.
\<close>

lemma bbox_to_pixel_offsets_raises:
  "bbox_to_pixel_offsets (Finite 0, Finite 0, Finite 0, Finite 10, Finite 0, Finite (- 1))
     (Finite 2, Finite 3, Finite 5, Finite 6) (10, 10) = Inl ZeroDivisionError"
  "bbox_to_pixel_offsets (Finite 0, Finite 1, Finite 0, Finite 10, Finite 0, Finite (- 1))
     (NaN, Finite 3, Finite 5, Finite 6) (10, 10) = Inl ValueError"
  "bbox_to_pixel_offsets (Finite 0, Finite 1, Finite 0, Finite 10, Finite 0, Finite (- 1))
     (Finite 2, Finite 3, PosInf, Finite 6) (10, 10) = Inl OverflowError"
  by code_simp+







text \<open>
  Claim C5. With transform \<open>(0, 1, 0, 10, 0, -1)\<close>, raster size \<open>(10, 10)\<close> and
  bounding box \<open>(2, 3, 5, 6)\<close>, \<open>bbox_to_pixel_offsets\<close> returns the window
  \<open>(2, 4, 3, 3)\<close>.
\<close>

theorem bbox_to_pixel_offsets_example:
  "bbox_to_pixel_offsets (Finite 0, Finite 1, Finite 0, Finite 10, Finite 0, Finite (- 1))
     (Finite 2, Finite 3, Finite 5, Finite 6) (10, 10) = Inr (2, 4, 3, 3)"
  by code_simp

text \<open>
  Claim C9. For every transform, bounding box and raster size for which a window is
  computed (the four quotients are finite floats: no zero pixel size, NaN or overflow),
  \<open>bbox_to_pixel_offsets\<close> returns a window \<open>(x, y, w, h)\<close> and
  \<open>pixel_offsets_to_window\<close> turns it into the half-open intervals
  \<open>((y, y + h), (x, x + w))\<close>: the row interval has length \<open>h\<close> and the column
  interval has length \<open>w\<close>.
\<close>

theorem window_of_offsets_intervals:
  assumes "fdiv (fsub bbox0 originX) pixel_width = Inr (Finite px1)"
    and "fdiv (fsub bbox2 originX) pixel_width = Inr (Finite px2)"
    and "fdiv (fsub bbox3 originY) pixel_height = Inr (Finite py1)"
    and "fdiv (fsub bbox1 originY) pixel_height = Inr (Finite py2)"
  shows "\<exists>x y w h rows cols.
      bbox_to_pixel_offsets (originX, pixel_width, gt2, originY, gt4, pixel_height)
        (bbox0, bbox1, bbox2, bbox3) (rsize0, rsize1) = Inr (x, y, w, h)
      \<and> pixel_offsets_to_window (offsets_list (x, y, w, h)) = Inr (rows, cols)
      \<and> rows = (y, y + h) \<and> cols = (x, x + w)
      \<and> snd rows - fst rows = h \<and> snd cols - fst cols = w"
  unfolding bbox_to_pixel_offsets_finite [OF assms] by simp

theorem window_of_offsets_intervals_witness:
  "fdiv (fsub (Finite 2) (Finite 0)) (Finite 1) = Inr (Finite 2)
   \<and> fdiv (fsub (Finite 5) (Finite 0)) (Finite 1) = Inr (Finite 5)
   \<and> fdiv (fsub (Finite 6) (Finite 10)) (Finite (- 1)) = Inr (Finite 4)
   \<and> fdiv (fsub (Finite 3) (Finite 10)) (Finite (- 1)) = Inr (Finite 7)
   \<and> (\<exists>x y w h rows cols.
        bbox_to_pixel_offsets (Finite 0, Finite 1, Finite 0, Finite 10, Finite 0, Finite (- 1))
          (Finite 2, Finite 3, Finite 5, Finite 6) (10, 10) = Inr (x, y, w, h)
        \<and> pixel_offsets_to_window (offsets_list (x, y, w, h)) = Inr (rows, cols)
        \<and> rows = (y, y + h) \<and> cols = (x, x + w)
        \<and> snd rows - fst rows = h \<and> snd cols - fst cols = w)"
proof -
  have px1: "fdiv (fsub (Finite 2) (Finite 0)) (Finite 1) = Inr (Finite 2)"
    and px2: "fdiv (fsub (Finite 5) (Finite 0)) (Finite 1) = Inr (Finite 5)"
    and py1: "fdiv (fsub (Finite 6) (Finite 10)) (Finite (- 1)) = Inr (Finite 4)"
    and py2: "fdiv (fsub (Finite 3) (Finite 10)) (Finite (- 1)) = Inr (Finite 7)"
    by code_simp+
  from window_of_offsets_intervals
         [OF px1 px2 py1 py2, of "Finite 0" "Finite 0" 10 10]
       px1 px2 py1 py2
  show ?thesis by blast
qed

section \<open>Geometry type codes\<close>

text \<open>
  Claim C3, as stated: \<open>shapely_to_ogr_type\<close> returns a code for each of the seven
  canonical names. It fails for \<open>Point\<close>, which is rejected like any unknown name.
\<close>

theorem shapely_to_ogr_type_Point_rejected:
  "shapely_to_ogr_type ''Point'' = Inl TypeError"
  by (simp add: shapely_to_ogr_type_def)

text \<open>
  Claim C3, amended: \<open>shapely_to_ogr_type\<close> returns a code for each of the four names
  \<open>Polygon\<close>, \<open>LineString\<close>, \<open>MultiPolygon\<close> and \<open>MultiLineString\<close>, and fails
  with \<open>TypeError\<close> on every other name (\<open>Point\<close>, \<open>MultiPoint\<close> and \<open>Feature\<close>
  among them); \<open>Polygon\<close> and \<open>MultiPolygon\<close> get distinct codes, and
  \<open>MultiLineString\<close> gets the code of \<open>LineString\<close>.
\<close>

theorem shapely_to_ogr_type_four_names:
  "(\<forall>t \<in> set [''Polygon'', ''LineString'', ''MultiPolygon'', ''MultiLineString''].
       \<exists>code. shapely_to_ogr_type t = Inr code)
   \<and> (\<forall>t. t \<notin> set [''Polygon'', ''LineString'', ''MultiPolygon'', ''MultiLineString'']
         \<longrightarrow> shapely_to_ogr_type t = Inl TypeError)
   \<and> shapely_to_ogr_type ''Polygon'' \<noteq> shapely_to_ogr_type ''MultiPolygon''
   \<and> shapely_to_ogr_type ''MultiLineString'' = shapely_to_ogr_type ''LineString''"
  by (simp add: shapely_to_ogr_type_def)

theorem shapely_to_ogr_type_four_names_witness:
  "''Feature'' \<notin> set [''Polygon'', ''LineString'', ''MultiPolygon'', ''MultiLineString'']
   \<and> shapely_to_ogr_type ''Feature'' = Inl TypeError
   \<and> ''MultiPolygon'' \<in> set [''Polygon'', ''LineString'', ''MultiPolygon'', ''MultiLineString'']
   \<and> (\<exists>code. shapely_to_ogr_type ''MultiPolygon'' = Inr code)"
proof -
  have out: "''Feature'' \<notin> set [''Polygon'', ''LineString'', ''MultiPolygon'', ''MultiLineString'']"
    by simp
  have inn: "''MultiPolygon'' \<in> set [''Polygon'', ''LineString'', ''MultiPolygon'', ''MultiLineString'']"
    by simp
  from shapely_to_ogr_type_four_names out inn show ?thesis by blast
qed

section \<open>Parsing one geometry\<close>

text \<open>
  A mapping with a recognised \<open>type\<close> is returned as it is, provided the two shapely
  loaders reject it with an exception that their \<open>except\<close> clause names.
\<close>

lemma parse_geo_mapping:
  assumes "map_of kvs ''type'' = Some (PStr t)" and "t \<in> set valid_types"
    and "wkb_loads E (PDict kvs) \<in> {Inl ReadingError, Inl TypeError}"
    and "wkt_loads E (PDict kvs) \<in> {Inl ReadingError, Inl TypeError, Inl AttributeError}"
  shows "parse_geo E (PDict kvs) = Inr (PDict kvs)"
  using assms by (auto simp add: parse_geo_def try_except_def)

text \<open>
  Claim C10. For every mapping whose \<open>type\<close> is \<open>FeatureCollection\<close>, \<open>parse_geo\<close>
  fails with \<open>RasterStatsError\<close> naming the mapping, while a string that
  \<open>json.loads\<close> decodes to that mapping is parsed to it: the name is accepted by the
  JSON-string branch only. The library calls behave as they do on such arguments: the
  shapely loaders reject the mapping and the string, and \<open>json.loads\<close> rejects the
  mapping, each with an exception the surrounding \<open>except\<close> clause names.
\<close>

theorem parse_geo_FeatureCollection:
  assumes "map_of kvs ''type'' = Some (PStr ''FeatureCollection'')"
    and "wkb_loads E (PDict kvs) \<in> {Inl ReadingError, Inl TypeError}"
    and "wkt_loads E (PDict kvs) \<in> {Inl ReadingError, Inl TypeError, Inl AttributeError}"
    and "json_loads E (PDict kvs) \<in> {Inl ValueError, Inl TypeError}"
    and "wkb_loads E (PStr doc) \<in> {Inl ReadingError, Inl TypeError}"
    and "wkt_loads E (PStr doc) \<in> {Inl ReadingError, Inl TypeError, Inl AttributeError}"
    and "json_loads E (PStr doc) = Inr (PDict kvs)"
  shows "parse_geo E (PDict kvs) = Inl (RasterStatsError_parse (PDict kvs))
       \<and> parse_geo E (PStr doc) = Inr (PDict kvs)"
  using assms by (auto simp add: parse_geo_def try_except_def valid_types_def)

theorem parse_geo_FeatureCollection_witness:
  "map_of fc_mapping ''type'' = Some (PStr ''FeatureCollection'')
   \<and> wkb_loads json_env (PDict fc_mapping) \<in> {Inl ReadingError, Inl TypeError}
   \<and> wkt_loads json_env (PDict fc_mapping) \<in> {Inl ReadingError, Inl TypeError, Inl AttributeError}
   \<and> json_loads json_env (PDict fc_mapping) \<in> {Inl ValueError, Inl TypeError}
   \<and> wkb_loads json_env (PStr fc_document) \<in> {Inl ReadingError, Inl TypeError}
   \<and> wkt_loads json_env (PStr fc_document) \<in> {Inl ReadingError, Inl TypeError, Inl AttributeError}
   \<and> json_loads json_env (PStr fc_document) = Inr (PDict fc_mapping)
   \<and> parse_geo json_env (PDict fc_mapping) = Inl (RasterStatsError_parse (PDict fc_mapping))
   \<and> parse_geo json_env (PStr fc_document) = Inr (PDict fc_mapping)"
proof -
  have ty: "map_of fc_mapping ''type'' = Some (PStr ''FeatureCollection'')"
    by (simp add: fc_mapping_def)
  have m1: "wkb_loads json_env (PDict fc_mapping) \<in> {Inl ReadingError, Inl TypeError}"
    and m2: "wkt_loads json_env (PDict fc_mapping)
               \<in> {Inl ReadingError, Inl TypeError, Inl AttributeError}"
    and m3: "json_loads json_env (PDict fc_mapping) \<in> {Inl ValueError, Inl TypeError}"
    and s1: "wkb_loads json_env (PStr fc_document) \<in> {Inl ReadingError, Inl TypeError}"
    and s2: "wkt_loads json_env (PStr fc_document)
               \<in> {Inl ReadingError, Inl TypeError, Inl AttributeError}"
    and s3: "json_loads json_env (PStr fc_document) = Inr (PDict fc_mapping)"
    by (simp_all add: json_env_def no_dataset_env_def)
  from parse_geo_FeatureCollection [OF ty m1 m2 m3 s1 s2 s3] ty m1 m2 m3 s1 s2 s3
  show ?thesis by simp
qed

section \<open>Classifying the input\<close>

text \<open>
  Claim C2, as stated: for a path that opens and whose layer reports zero features,
  \<open>get_features\<close> fails at the call. It does not: \<open>ogr_records\<close> is a generator
  function, so the call returns the strategy \<open>ogr\<close> with an iterator, and the
  \<open>OGRError\<close> sits in the iterator.
\<close>

theorem get_features_empty_layer_returns:
  "ogr_Open empty_layer_env ''empty.shp''
      = Some \<lparr>GetLayer = (\<lambda>n. if n = 0 then Some empty_layer else None)\<rparr>
   \<and> GetFeatureCount empty_layer = 0
   \<and> get_features empty_layer_env (PStr ''empty.shp'') 0
       = Inr (Raise OGRError_no_features, ''ogr'', None)
   \<and> get_features empty_layer_env (PStr ''empty.shp'') 0 \<noteq> Inl OGRError_no_features"
  by (simp add: get_features_def empty_layer_env_def no_dataset_env_def empty_layer_def
      try_except_def get_ogr_ds_def ogr_records_def ogr_srs_def)

text \<open>
  Claim C2, amended: for every path that opens and whose layer reports zero features,
  \<open>get_features\<close> returns the strategy \<open>ogr\<close>, the spatial reference of the layer and
  an iterator that yields nothing and raises \<open>OGRError\<close> (no features) when it is first
  advanced.
\<close>

theorem get_features_empty_layer_lazy:
  assumes "ogr_Open E path = Some ds" and "GetLayer ds layer_num = Some lyr"
    and "GetFeatureCount lyr = 0"
  shows "\<exists>features_iter.
      get_features E (PStr path) layer_num = Inr (features_iter, ''ogr'', GetSpatialRef lyr)
      \<and> yielded features_iter = [] \<and> raised features_iter = Some OGRError_no_features"
  using assms
  by (simp add: get_features_def try_except_def get_ogr_ds_def ogr_records_def ogr_srs_def)

theorem get_features_empty_layer_lazy_witness:
  "ogr_Open empty_layer_env ''empty.shp''
      = Some \<lparr>GetLayer = (\<lambda>n. if n = 0 then Some empty_layer else None)\<rparr>
   \<and> GetLayer \<lparr>GetLayer = (\<lambda>n. if n = 0 then Some empty_layer else None)\<rparr> 0 = Some empty_layer
   \<and> GetFeatureCount empty_layer = 0
   \<and> (\<exists>features_iter.
        get_features empty_layer_env (PStr ''empty.shp'') 0
          = Inr (features_iter, ''ogr'', GetSpatialRef empty_layer)
        \<and> yielded features_iter = [] \<and> raised features_iter = Some OGRError_no_features)"
proof -
  have op: "ogr_Open empty_layer_env ''empty.shp''
      = Some \<lparr>GetLayer = (\<lambda>n. if n = 0 then Some empty_layer else None)\<rparr>"
    by (simp add: empty_layer_env_def)
  have ly: "GetLayer \<lparr>GetLayer = (\<lambda>n. if n = 0 then Some empty_layer else None)\<rparr> 0
      = Some empty_layer"
    by simp
  have ct: "GetFeatureCount empty_layer = 0" by (simp add: empty_layer_def)
  from get_features_empty_layer_lazy [OF op ly ct] op ly ct show ?thesis by blast
qed

text \<open>
  Claim C6. For every mapping whose \<open>type\<close> is \<open>Polygon\<close>, \<open>get_features\<close> returns
  the strategy \<open>single_geo\<close> and a sequence of exactly one record, the mapping itself.
  The shapely loaders, tried first by \<open>parse_geo\<close>, reject a mapping with an exception
  their \<open>except\<close> clause names.
\<close>

theorem get_features_Polygon_mapping:
  assumes "map_of kvs ''type'' = Some (PStr ''Polygon'')"
    and "wkb_loads E (PDict kvs) \<in> {Inl ReadingError, Inl TypeError}"
    and "wkt_loads E (PDict kvs) \<in> {Inl ReadingError, Inl TypeError, Inl AttributeError}"
  shows "\<exists>features_iter spatial_ref.
      get_features E (PDict kvs) layer_num = Inr (features_iter, ''single_geo'', spatial_ref)
      \<and> yielded features_iter = [PDict kvs] \<and> raised features_iter = None"
  using parse_geo_mapping [OF assms(1) _ assms(2,3)]
  by (simp add: get_features_def single_geo_def valid_types_def)

theorem get_features_Polygon_mapping_witness:
  "map_of [(''type'', PStr ''Polygon''), (''coordinates'', PList [])] ''type''
      = Some (PStr ''Polygon'')
   \<and> wkb_loads no_dataset_env (PDict [(''type'', PStr ''Polygon''), (''coordinates'', PList [])])
       \<in> {Inl ReadingError, Inl TypeError}
   \<and> wkt_loads no_dataset_env (PDict [(''type'', PStr ''Polygon''), (''coordinates'', PList [])])
       \<in> {Inl ReadingError, Inl TypeError, Inl AttributeError}
   \<and> (\<exists>features_iter spatial_ref.
        get_features no_dataset_env
          (PDict [(''type'', PStr ''Polygon''), (''coordinates'', PList [])]) 0
          = Inr (features_iter, ''single_geo'', spatial_ref)
        \<and> yielded features_iter = [PDict [(''type'', PStr ''Polygon''), (''coordinates'', PList [])]]
        \<and> raised features_iter = None)"
proof -
  let ?kvs = "[(''type'', PStr ''Polygon''), (''coordinates'', PList [])]"
  have ty: "map_of ?kvs ''type'' = Some (PStr ''Polygon'')" by simp
  have l1: "wkb_loads no_dataset_env (PDict ?kvs) \<in> {Inl ReadingError, Inl TypeError}"
    and l2: "wkt_loads no_dataset_env (PDict ?kvs)
               \<in> {Inl ReadingError, Inl TypeError, Inl AttributeError}"
    by (simp_all add: no_dataset_env_def)
  from get_features_Polygon_mapping [OF ty l1 l2, of 0] ty l1 l2 show ?thesis by blast
qed

section \<open>Iterables of geometries\<close>

text \<open>
  The loop of \<open>geo_records\<close> stops at the first item on which \<open>parse_geo\<close> raises,
  whatever the exception: the items before it are yielded, the exception ends the
  iterator, and no later item is looked at.
\<close>

lemma geo_records_loop_fail_fast:
  assumes "parse_geo E bad = Inl e"
    and "\<forall>v \<in> set before. \<exists>geo. parse_geo E v = Inr geo"
  shows "yielded (geo_records_loop E (before @ bad # later))
           = map (\<lambda>v. projr (parse_geo E v)) before
       \<and> raised (geo_records_loop E (before @ bad # later)) = Some e"
  using assms by (induction before) auto

text \<open>
  Claim C7. An item that no parsing strategy recognises aborts the sequence with
  \<open>RasterStatsError\<close> naming the item. The first conjunct is an item with an unknown
  \<open>type\<close>, where this is what happens; the second is a mapping without a \<open>type\<close> key,
  where \<open>thing['type']\<close> raises \<open>KeyError\<close>, which the \<open>except\<close> clause of the
  mapping branch does not name: the sequence ends with \<open>KeyError\<close>. In both, the
  well-formed item that follows is not yielded.
\<close>

theorem geo_records_missing_type_KeyError:
  "get_features no_dataset_env
      (PList [PDict [(''type'', PStr ''Circle'')], PDict [(''type'', PStr ''Point'')]]) 0
     = Inr (Raise (RasterStatsError_parse (PDict [(''type'', PStr ''Circle'')])),
            ''iter_geo'', Some (SpatialReference ''''))
   \<and> get_features no_dataset_env
      (PList [PDict [(''coordinates'', PList [PInt 0, PInt 0])],
              PDict [(''type'', PStr ''Point'')]]) 0
     = Inr (Raise KeyError, ''iter_geo'', Some (SpatialReference ''''))"
  by (simp add: get_features_def geo_records_def parse_geo_def try_except_def
      no_dataset_env_def valid_types_def)

section \<open>Rasterizing\<close>

text \<open>
  All that the module fixes about a mask: it is what the backend returns for the single
  geometry burnt with value 1, fill 0, the shape (height, width) of the window and the
  flag passed on unchanged. Which cells the flag adds or removes is decided by the
  backend alone.
\<close>

lemma rasterize_geom_forwards:
  "rasterize_geom rasterize geom (x, y, xsize, ysize) new_gt all_touched
     = rasterize [(geom, 1)] (ysize, xsize) new_gt 0 all_touched"
  by (simp add: rasterize_geom_def)

end
